theory Spec2Isabelle
  imports Complex_Main
begin

section \<open>JavaScript Numbers\<close>

text \<open>
  A Number is an IEEE 754 double: \<open>NaN\<close>, an infinity, negative zero, or a finite value
  \<open>Num r\<close>, where \<open>Num 0\<close> is positive zero. The finite values are kept as rationals; the
  doubles among them are the values that \<open>fl\<close> returns, and every arithmetic operation
  rounds its exact result with \<open>fl\<close>.
\<close>

datatype jsnum = NaN | PosInf | NegInf | NegZero | Num rat

fun val :: "jsnum \<Rightarrow> rat" where
  "val (Num r) = r"
| "val _ = 0"

text \<open>The sign bit.\<close>

fun negative :: "jsnum \<Rightarrow> bool" where
  "negative (Num r) = (r < 0)"
| "negative NegZero = True"
| "negative NegInf = True"
| "negative _ = False"

definition isZero :: "jsnum \<Rightarrow> bool" where
  "isZero a = (a = NegZero \<or> a = Num 0)"

definition isInf :: "jsnum \<Rightarrow> bool" where
  "isInf a = (a = PosInf \<or> a = NegInf)"

definition signedZero :: "bool \<Rightarrow> jsnum" where
  "signedZero neg = (if neg then NegZero else Num 0)"

definition signedInf :: "bool \<Rightarrow> jsnum" where
  "signedInf neg = (if neg then NegInf else PosInf)"

subsection \<open>Rounding to the nearest double\<close>

text \<open>The number of binary digits of a natural number.\<close>

fun bitLength :: "nat \<Rightarrow> nat" where
  "bitLength n = (if n = 0 then 0 else 1 + bitLength (n div 2))"

text \<open>For \<open>a > 0\<close>, the integer \<open>k\<close> with \<open>2 ^ k \<le> a < 2 ^ (k + 1)\<close>.\<close>

definition ilog2 :: "rat \<Rightarrow> int" where
  "ilog2 a =
     (if 1 \<le> a then int (bitLength (nat \<lfloor>a\<rfloor>)) - 1
      else - int (bitLength (nat (\<lceil>1 / a\<rceil> - 1))))"

definition pow2 :: "int \<Rightarrow> rat" where
  "pow2 e = (if 0 \<le> e then 2 ^ nat e else 1 / 2 ^ nat (- e))"

definition roundHalfEven :: "rat \<Rightarrow> int" where
  "roundHalfEven q =
     (if q - of_int \<lfloor>q\<rfloor> < 1 / 2 then \<lfloor>q\<rfloor>
      else if 1 / 2 < q - of_int \<lfloor>q\<rfloor> then \<lfloor>q\<rfloor> + 1
      else if even \<lfloor>q\<rfloor> then \<lfloor>q\<rfloor> else \<lfloor>q\<rfloor> + 1)"

text \<open>
  The exponent of the last place of the doubles around \<open>a > 0\<close>: 52 places below the
  leading bit, and never below that of the subnormal numbers.
\<close>

definition quantum :: "rat \<Rightarrow> int" where
  "quantum a = max (ilog2 a) (- 1022) - 52"

text \<open>
  The double nearest to a rational, a tie going to the even significand; a value that
  rounds to \<open>2 ^ 1024\<close> or more is an infinity, and one that rounds to nothing is a zero
  with the sign of the value.
\<close>

definition fl :: "rat \<Rightarrow> jsnum" where
  "fl r =
     (if r = 0 then Num 0
      else if pow2 1024 \<le>
           of_int (roundHalfEven (\<bar>r\<bar> / pow2 (quantum \<bar>r\<bar>))) * pow2 (quantum \<bar>r\<bar>)
        then signedInf (r < 0)
      else if roundHalfEven (\<bar>r\<bar> / pow2 (quantum \<bar>r\<bar>)) = 0 then signedZero (r < 0)
      else Num ((if r < 0 then - 1 else 1) *
             (of_int (roundHalfEven (\<bar>r\<bar> / pow2 (quantum \<bar>r\<bar>))) * pow2 (quantum \<bar>r\<bar>))))"

subsection \<open>Arithmetic\<close>

fun js_neg :: "jsnum \<Rightarrow> jsnum" where
  "js_neg NaN = NaN"
| "js_neg PosInf = NegInf"
| "js_neg NegInf = PosInf"
| "js_neg NegZero = Num 0"
| "js_neg (Num r) = (if r = 0 then NegZero else Num (- r))"

text \<open>
  \<^verbatim>\<open>a + b\<close>: opposite infinities give \<open>NaN\<close>; an exact sum of zero is positive zero unless
  both operands are negative zero.
\<close>

definition js_add :: "jsnum \<Rightarrow> jsnum \<Rightarrow> jsnum" where
  "js_add a b =
     (if a = NaN \<or> b = NaN then NaN
      else if isInf a \<or> isInf b
        then (if isInf a \<and> isInf b \<and> a \<noteq> b then NaN else if isInf a then a else b)
      else if val a + val b = 0
        then (if a = NegZero \<and> b = NegZero then NegZero else Num 0)
      else fl (val a + val b))"

definition js_sub :: "jsnum \<Rightarrow> jsnum \<Rightarrow> jsnum" where
  "js_sub a b = js_add a (js_neg b)"

text \<open>\<^verbatim>\<open>a * b\<close>: an infinity times a zero is \<open>NaN\<close>; the sign is the product of the signs.\<close>

definition js_mul :: "jsnum \<Rightarrow> jsnum \<Rightarrow> jsnum" where
  "js_mul a b =
     (if a = NaN \<or> b = NaN then NaN
      else if isInf a \<or> isInf b
        then (if isZero a \<or> isZero b then NaN else signedInf (negative a \<noteq> negative b))
      else if val a * val b = 0 then signedZero (negative a \<noteq> negative b)
      else fl (val a * val b))"

text \<open>\<^verbatim>\<open>a / b\<close>.\<close>

definition js_div :: "jsnum \<Rightarrow> jsnum \<Rightarrow> jsnum" where
  "js_div a b =
     (if a = NaN \<or> b = NaN then NaN
      else if isInf a then (if isInf b then NaN else signedInf (negative a \<noteq> negative b))
      else if isInf b then signedZero (negative a \<noteq> negative b)
      else if isZero b
        then (if isZero a then NaN else signedInf (negative a \<noteq> negative b))
      else if isZero a then signedZero (negative a \<noteq> negative b)
      else fl (val a / val b))"

text \<open>
  The comparisons are false when an operand is \<open>NaN\<close>; the two zeros are equal.
  \<^verbatim>\<open>a >= b\<close> is \<open>js_le b a\<close> and \<^verbatim>\<open>a > b\<close> is \<open>js_lt b a\<close>.
\<close>

definition js_lt :: "jsnum \<Rightarrow> jsnum \<Rightarrow> bool" where
  "js_lt a b =
     (if a = NaN \<or> b = NaN then False
      else if a = PosInf \<or> b = NegInf then False
      else if a = NegInf \<or> b = PosInf then True
      else val a < val b)"

definition js_le :: "jsnum \<Rightarrow> jsnum \<Rightarrow> bool" where
  "js_le a b =
     (if a = NaN \<or> b = NaN then False
      else if a = NegInf \<or> b = PosInf then True
      else if a = PosInf \<or> b = NegInf then False
      else val a \<le> val b)"

definition js_ge :: "jsnum \<Rightarrow> jsnum \<Rightarrow> bool" where
  "js_ge a b = js_le b a"

definition js_gt :: "jsnum \<Rightarrow> jsnum \<Rightarrow> bool" where
  "js_gt a b = js_lt b a"


text \<open>
  \<^verbatim>\<open>Math.round\<close>: the integer nearest to the value, a tie going up; a result of zero keeps
  the sign of the argument, so that the values from -0.5 up to -0 give negative zero.
\<close>

fun Math_round :: "jsnum \<Rightarrow> jsnum" where
  "Math_round (Num r) =
     (if \<lfloor>r + 1 / 2\<rfloor> = 0 then signedZero (r < 0) else Num (of_int \<lfloor>r + 1 / 2\<rfloor>))"
| "Math_round a = a"

text \<open>ToBoolean of a Number: \<open>NaN\<close> and the zeros are falsy.\<close>

fun truthy_num :: "jsnum \<Rightarrow> bool" where
  "truthy_num NaN = False"
| "truthy_num NegZero = False"
| "truthy_num (Num r) = (r \<noteq> 0)"
| "truthy_num _ = True"

text \<open>The expression \<^verbatim>\<open>x || 0\<close> for a Number \<open>x\<close>.\<close>

definition or_zero :: "jsnum \<Rightarrow> jsnum" where
  "or_zero x = (if truthy_num x then x else Num 0)"

section \<open>Strings and values\<close>

text \<open>
  A string is a list of UTF-16 code units. \<open>js\<close> gives the code units of a literal whose
  characters are all below 256.
\<close>

type_synonym jsstring = "nat list"

definition js :: "string \<Rightarrow> jsstring" where
  "js s = map of_char s"

text \<open>
  The white space and line terminator code units: what \<^verbatim>\<open>trim\<close> removes and \<^verbatim>\<open>parseFloat\<close>
  skips.
\<close>

definition isWhiteSpace :: "nat \<Rightarrow> bool" where
  "isWhiteSpace c =
     (c \<in> set [0x0009, 0x000A, 0x000B, 0x000C, 0x000D, 0x0020, 0x00A0, 0x1680,
               0x2000, 0x2001, 0x2002, 0x2003, 0x2004, 0x2005, 0x2006, 0x2007, 0x2008,
               0x2009, 0x200A, 0x2028, 0x2029, 0x202F, 0x205F, 0x3000, 0xFEFF])"


definition isDigit :: "nat \<Rightarrow> bool" where
  "isDigit c = (48 \<le> c \<and> c \<le> 57)"

definition digitsValue :: "jsstring \<Rightarrow> nat" where
  "digitsValue ds = foldl (\<lambda>a c. 10 * a + (c - 48)) 0 ds"

text \<open>
  The exponent part of a decimal literal: \<^verbatim>\<open>e\<close> or \<^verbatim>\<open>E\<close>, an optional sign, one digit or
  more. Text that is not an exponent part is left unread and counts as exponent 0.
\<close>

definition exponentPart :: "jsstring \<Rightarrow> int" where
  "exponentPart r =
     (case r of
        [] \<Rightarrow> 0
      | c # r1 \<Rightarrow>
          if c = 101 \<or> c = 69 then
            (case r1 of
               [] \<Rightarrow> 0
             | s # r2 \<Rightarrow>
                 if s = 45 then - int (digitsValue (takeWhile isDigit r2))
                 else if s = 43 then int (digitsValue (takeWhile isDigit r2))
                 else int (digitsValue (takeWhile isDigit r1)))
          else 0)"

definition pow10 :: "int \<Rightarrow> rat" where
  "pow10 e = (if 0 \<le> e then 10 ^ nat e else 1 / 10 ^ nat (- e))"

text \<open>
  The exact value of the longest prefix of \<open>u\<close> that is an unsigned decimal literal
  (digits, a fraction, an exponent); \<open>None\<close> when no prefix is one.
\<close>

definition decimalValue :: "jsstring \<Rightarrow> rat option" where
  "decimalValue u =
     (let ip = takeWhile isDigit u;
          r1 = dropWhile isDigit u;
          dot = (r1 \<noteq> [] \<and> hd r1 = 46);
          fp = (if dot then takeWhile isDigit (tl r1) else []);
          r2 = (if dot then dropWhile isDigit (tl r1) else r1)
      in if ip = [] \<and> fp = [] then None
         else Some (of_nat (digitsValue (ip @ fp)) / 10 ^ length fp * pow10 (exponentPart r2)))"

text \<open>
  \<^verbatim>\<open>parseFloat\<close> of a string: leading white space is skipped, a sign is read, then either
  the word \<^verbatim>\<open>Infinity\<close> or the longest decimal literal; the result is the double nearest to
  the value read, with the sign read, and \<open>NaN\<close> when nothing is read.
\<close>

definition parseFloat_string :: "jsstring \<Rightarrow> jsnum" where
  "parseFloat_string s =
     (let t = dropWhile isWhiteSpace s;
          neg = (t \<noteq> [] \<and> hd t = 45);
          u = (if t \<noteq> [] \<and> (hd t = 45 \<or> hd t = 43) then tl t else t)
      in if take 8 u = js ''Infinity'' then signedInf neg
         else case decimalValue u of
                None \<Rightarrow> NaN
              | Some v \<Rightarrow> if v = 0 then signedZero neg else fl (if neg then - v else v))"

text \<open>
  The values a field of a venture object can hold. \<open>Undefined\<close> is also what reading an
  absent field gives, so an absent field and the value \<^verbatim>\<open>undefined\<close> are one value here.
\<close>

datatype jsval = Undefined | Null | Bool bool | Number jsnum | Str jsstring

text \<open>ToBoolean.\<close>

fun truthy :: "jsval \<Rightarrow> bool" where
  "truthy Undefined = False"
| "truthy Null = False"
| "truthy (Bool b) = b"
| "truthy (Number n) = truthy_num n"
| "truthy (Str s) = (s \<noteq> [])"


text \<open>
  \<^verbatim>\<open>parseFloat\<close> of a value: the argument is converted to a string first. A Number prints
  as a text that reads back as itself, except that negative zero prints as \<^verbatim>\<open>0\<close>; \<^verbatim>\<open>true\<close>,
  \<^verbatim>\<open>false\<close>, \<^verbatim>\<open>null\<close> and \<^verbatim>\<open>undefined\<close> begin with no literal.
\<close>

fun parseFloat :: "jsval \<Rightarrow> jsnum" where
  "parseFloat (Number n) = (if n = NegZero then Num 0 else n)"
| "parseFloat (Str s) = parseFloat_string s"
| "parseFloat _ = NaN"

section \<open>Ventures and the persisted store\<close>

text \<open>
  A venture object: \<^verbatim>\<open>{ id, name, revenue, expenses, isBitcoin }\<close>. The objects of the
  seed list and those that \<^verbatim>\<open>addVenture\<close> builds have no \<^verbatim>\<open>isBitcoin\<close> field, which reads as
  \<open>Undefined\<close>.
\<close>

record venture =
  id :: jsval
  name :: jsval
  revenue :: jsval
  expenses :: jsval
  isBitcoin :: jsval

definition bitcoinVenture :: venture where
  "bitcoinVenture =
     \<lparr>id = Number (Num 8), name = Str (js ''Bitcoin Investor''), revenue = Number (Num 0),
      expenses = Str (js ''$1,000''), isBitcoin = Bool True\<rparr>"

definition initialVentures :: "venture list" where
  "initialVentures =
    [\<lparr>id = Number (Num 1), name = Str (js ''Rarely open coffee cart''),
       revenue = Number (Num 0), expenses = Str (js ''Time wasted''), isBitcoin = Undefined\<rparr>,
     \<lparr>id = Number (Num 2), name = Str (js ''Questionably exploitative house cleaning service''),
       revenue = Number (Num 0), expenses = Str (js ''Online training course''), isBitcoin = Undefined\<rparr>,
     \<lparr>id = Number (Num 3), name = Str (js ''Vague restaurant/food cart''),
       revenue = Number (Num 0), expenses = Str (js ''Time wasted''), isBitcoin = Undefined\<rparr>,
     \<lparr>id = Number (Num 4), name = Str (js ''PYOP + Kiln''),
       revenue = Number (Num 0), expenses = Str (js ''$100''), isBitcoin = Undefined\<rparr>,
     \<lparr>id = Number (Num 5), name = Str (js ''CRE Cleaning Franchise (also maybe exploitative)''),
       revenue = Number (Num 0), expenses = Str (js ''Time wasted''), isBitcoin = Undefined\<rparr>,
     \<lparr>id = Number (Num 6), name = Str (js ''Alarm and security company''),
       revenue = Number (Num 0), expenses = Str (js ''Time wasted''), isBitcoin = Undefined\<rparr>,
     \<lparr>id = Number (Num 7), name = Str (js ''Wilmington-based landscaping''),
       revenue = Number (Num 0), expenses = Str (js ''Time wasted''), isBitcoin = Undefined\<rparr>,
     \<lparr>id = Number (Num 8), name = Str (js ''Bitcoin Investor''),
       revenue = Number (Num 0), expenses = Str (js ''$1,000''), isBitcoin = Bool True\<rparr>]"

text \<open>
  The store holds the text that \<^verbatim>\<open>JSON.stringify\<close> wrote under the key
  \<^verbatim>\<open>alexVentures_v2\<close>, or nothing. The model keeps the stored text in parsed form: \<open>None\<close> when
  the key is absent, \<open>Some vs\<close> when it holds a JSON text that parses to the venture list
  \<open>vs\<close> (such a text is never empty, so \<^verbatim>\<open>if (saved)\<close> holds exactly when the key is present).
\<close>

type_synonym storage = "venture list option"

text \<open>The initializer of the \<^verbatim>\<open>ventures\<close> state (\<^verbatim>\<open>parsed.find\<close>, then \<^verbatim>\<open>parsed.push\<close>).\<close>

definition load :: "storage \<Rightarrow> venture list" where
  "load saved =
     (case saved of
        Some parsed \<Rightarrow>
          (if find (\<lambda>v. truthy (isBitcoin v)) parsed = None
           then parsed @ [bitcoinVenture]
           else parsed)
      | None \<Rightarrow> initialVentures)"

text \<open>The records of a list that carry the crypto discriminator.\<close>

definition cryptoRecords :: "venture list \<Rightarrow> venture list" where
  "cryptoRecords vs = filter (\<lambda>v. truthy (isBitcoin v)) vs"

text \<open>
  \<^verbatim>\<open>JSON.stringify\<close> followed by \<^verbatim>\<open>JSON.parse\<close>, on the value of a field: \<open>NaN\<close> and the
  infinities are written as \<^verbatim>\<open>null\<close>, negative zero is written as \<^verbatim>\<open>0\<close>, and a field that is
  \<^verbatim>\<open>undefined\<close> is left out, so it reads back as \<open>Undefined\<close>. Every other value is written
  as a text that parses to the same value.
\<close>

fun jsonValue :: "jsval \<Rightarrow> jsval" where
  "jsonValue (Number n) =
     (if n = NaN \<or> n = PosInf \<or> n = NegInf then Null
      else if n = NegZero then Number (Num 0)
      else Number n)"
| "jsonValue v = v"

definition jsonVenture :: "venture \<Rightarrow> venture" where
  "jsonVenture v =
     \<lparr>id = jsonValue (id v), name = jsonValue (name v), revenue = jsonValue (revenue v),
      expenses = jsonValue (expenses v), isBitcoin = jsonValue (isBitcoin v)\<rparr>"

text \<open>The effect \<^verbatim>\<open>localStorage.setItem('alexVentures_v2', JSON.stringify(ventures))\<close>.\<close>

definition save :: "venture list \<Rightarrow> storage" where
  "save vs = Some (map jsonVenture vs)"

text \<open>A list that writing and reading back leaves as it is.\<close>

definition persistable :: "venture list \<Rightarrow> bool" where
  "persistable vs = (map jsonVenture vs = vs)"

section \<open>Dates\<close>

text \<open>
  A \<^verbatim>\<open>Date\<close> is kept as its calendar fields in the time zone of the environment: year,
  month (0 for January), day of the month, millisecond of the day. The code reads and sets
  these fields with the local-time methods of \<^verbatim>\<open>Date\<close>; the model is that of an environment
  whose time zone is UTC, where the order of the time values is the order of the fields.
\<close>

record jsdate =
  year :: int
  month :: int
  day :: int
  msOfDay :: int

text \<open>\<^verbatim>\<open>new Date(ms)\<close>: the calendar fields of a time value (days since 1970-01-01).\<close>

definition civil_from_days :: "int \<Rightarrow> int \<times> int \<times> int" where
  "civil_from_days z0 =
     (let z = z0 + 719468;
          era = z div 146097;
          doe = z mod 146097;
          yoe = (doe - doe div 1460 + doe div 36524 - doe div 146096) div 365;
          doy = doe - (365 * yoe + yoe div 4 - yoe div 100);
          mp = (5 * doy + 2) div 153;
          d = doy - (153 * mp + 2) div 5 + 1;
          m = (if mp < 10 then mp + 3 else mp - 9);
          y = yoe + era * 400 + (if m \<le> 2 then 1 else 0)
      in (y, m, d))"

definition new_Date :: "int \<Rightarrow> jsdate" where
  "new_Date t =
     (case civil_from_days (t div 86400000) of
        (y, m, d) \<Rightarrow> \<lparr>year = y, month = m - 1, day = d, msOfDay = t mod 86400000\<rparr>)"

definition getFullYear :: "jsdate \<Rightarrow> int" where
  "getFullYear d = year d"

definition getMonth :: "jsdate \<Rightarrow> int" where
  "getMonth d = month d"

text \<open>
  \<^verbatim>\<open>setMonth(m)\<close>: a month outside 0..11 carries into the year. The day is kept, which is
  what \<^verbatim>\<open>setMonth\<close> does for a day that every month has (1 to 28).
\<close>

definition setMonth :: "jsdate \<Rightarrow> int \<Rightarrow> jsdate" where
  "setMonth d m = d\<lparr>year := year d + m div 12, month := m mod 12\<rparr>"

text \<open>\<^verbatim>\<open>a <= b\<close> on dates compares the time values, that is the fields in order.\<close>

definition date_le :: "jsdate \<Rightarrow> jsdate \<Rightarrow> bool" where
  "date_le a b =
     (year a < year b \<or> (year a = year b \<and>
       (month a < month b \<or> (month a = month b \<and>
         (day a < day b \<or> (day a = day b \<and> msOfDay a \<le> msOfDay b))))))"


text \<open>\<^verbatim>\<open>toLocaleDateString('en-US', { month: 'short', year: '2-digit' })\<close>, as in \<^verbatim>\<open>Jan 23\<close>.\<close>

definition toLocaleDateString :: "jsdate \<Rightarrow> jsstring" where
  "toLocaleDateString d =
     js ([''Jan'', ''Feb'', ''Mar'', ''Apr'', ''May'', ''Jun'',
          ''Jul'', ''Aug'', ''Sep'', ''Oct'', ''Nov'', ''Dec''] ! nat (month d mod 12))
     @ js '' '' @ [48 + nat (year d mod 100) div 10, 48 + nat (year d mod 100) mod 10]"

text \<open>\<^verbatim>\<open>new Date('2023-01-03')\<close>: midnight UTC at the start of the day \<^verbatim>\<open>START_DATE\<close>.\<close>

definition START_DATE :: jsdate where
  "START_DATE = \<lparr>year = 2023, month = 0, day = 3, msOfDay = 0\<rparr>"

section \<open>The component state\<close>

definition INITIAL_INVESTMENT :: jsnum where
  "INITIAL_INVESTMENT = Num 10000"

text \<open>The literal \<^verbatim>\<open>89.83\<close> is the double nearest to 89.83, and so for the other literals.\<close>

definition GOOGLE_START_PRICE :: jsnum where
  "GOOGLE_START_PRICE = fl (8983 / 100)"

definition BTC_INVESTMENT :: jsnum where
  "BTC_INVESTMENT = Num 1000"

definition BTC_PRICE_AUG_2025 :: jsnum where
  "BTC_PRICE_AUG_2025 = fl (11738444 / 100)"

text \<open>The form state \<^verbatim>\<open>newVenture\<close>: the text inputs hold strings, \<^verbatim>\<open>revenue\<close> starts as 0.\<close>

record newVentureForm =
  nv_name :: jsstring
  nv_revenue :: jsval
  nv_expenses :: jsstring

text \<open>A point of the chart; \<open>None\<close> is a \<^verbatim>\<open>stockValue\<close> of \<^verbatim>\<open>null\<close>.\<close>

record point =
  date :: jsstring
  fullDate :: jsdate
  stockValue :: "jsnum option"
  alexRevenue :: jsnum

text \<open>
  The state of the component \<^verbatim>\<open>App\<close>. For the prices and the advisory, \<open>None\<close> is
  \<^verbatim>\<open>null\<close> (for \<^verbatim>\<open>googlePrice\<close> also \<^verbatim>\<open>undefined\<close>).
\<close>

record app =
  ventures :: "venture list"
  googlePrice :: "jsnum option"
  bitcoinPrice :: "jsnum option"
  bitcoinValue :: "jsnum option"
  googleHistory :: "point list"
  loading :: bool
  error :: "jsstring option"
  showAddForm :: bool
  newVenture :: newVentureForm

definition init :: "storage \<Rightarrow> app" where
  "init saved =
     \<lparr>ventures = load saved, googlePrice = None, bitcoinPrice = None, bitcoinValue = None,
      googleHistory = [], loading = True, error = None, showAddForm = False,
      newVenture = \<lparr>nv_name = [], nv_revenue = Number (Num 0), nv_expenses = []\<rparr>\<rparr>"

subsection \<open>The crypto venture\<close>

text \<open>
  \<^verbatim>\<open>fetchBitcoinPrice\<close>: \<open>fetched\<close> is the Number read at \<^verbatim>\<open>data.bitcoin.usd\<close>, \<open>None\<close> when
  the request or the reading of its body raised.
\<close>

definition fetchBitcoinPrice :: "jsnum option \<Rightarrow> app \<Rightarrow> app" where
  "fetchBitcoinPrice fetched s =
     (case fetched of
        Some currentPrice \<Rightarrow>
          s\<lparr>bitcoinPrice := Some currentPrice,
            bitcoinValue := Some (js_mul (js_div BTC_INVESTMENT BTC_PRICE_AUG_2025) currentPrice)\<rparr>
      | None \<Rightarrow>
          s\<lparr>bitcoinPrice := Some (Num 105000),
            bitcoinValue := Some (js_mul (js_div BTC_INVESTMENT BTC_PRICE_AUG_2025) (Num 105000))\<rparr>)"

text \<open>The effect that runs when \<^verbatim>\<open>bitcoinValue\<close> changes.\<close>

definition updateBitcoinVenture :: "app \<Rightarrow> app" where
  "updateBitcoinVenture s =
     (case bitcoinValue s of
        None \<Rightarrow> s
      | Some bv \<Rightarrow>
          s\<lparr>ventures :=
              map (\<lambda>v. if truthy (isBitcoin v)
                        then v\<lparr>revenue := Number (Math_round (js_sub bv BTC_INVESTMENT))\<rparr>
                        else v)
                (ventures s)\<rparr>)"

text \<open>
  \<^verbatim>\<open>getBitcoinRevenueDisplay\<close>. The code calls \<^verbatim>\<open>toLocaleString()\<close> without a locale, so what
  it prints depends on the locale of the runtime: the function is the parameter
  \<open>toLocaleString\<close>.
\<close>

definition getBitcoinRevenueDisplay :: "(jsnum \<Rightarrow> jsstring) \<Rightarrow> app \<Rightarrow> venture \<Rightarrow> jsstring" where
  "getBitcoinRevenueDisplay toLocaleString s venture =
     (if \<not> truthy (isBitcoin venture)
      then js ''$'' @ toLocaleString (or_zero (parseFloat (revenue venture)))
      else case bitcoinValue s of
             None \<Rightarrow> js ''...''
           | Some bv \<Rightarrow>
               (let profit = Math_round (js_sub bv BTC_INVESTMENT);
                    prefix = (if js_ge profit (Num 0) then js ''+'' else [])
                in prefix @ js ''$'' @ toLocaleString profit))"

subsection \<open>Derived totals\<close>

definition totalRevenue :: "app \<Rightarrow> jsnum" where
  "totalRevenue s =
     foldl (\<lambda>sum v.
              if truthy (isBitcoin v) then js_add sum (or_zero (parseFloat (revenue v)))
              else js_add sum (or_zero (parseFloat (revenue v))))
       (Num 0) (ventures s)"

definition shares :: jsnum where
  "shares = js_div INITIAL_INVESTMENT GOOGLE_START_PRICE"

definition currentStockValue :: "app \<Rightarrow> jsnum option" where
  "currentStockValue s =
     (case googlePrice s of
        Some p \<Rightarrow> if truthy_num p then Some (Math_round (js_mul shares p)) else None
      | None \<Rightarrow> None)"

definition stockGain :: "app \<Rightarrow> jsnum option" where
  "stockGain s =
     (case currentStockValue s of
        Some c \<Rightarrow> if truthy_num c then Some (js_sub c INITIAL_INVESTMENT) else None
      | None \<Rightarrow> None)"

definition isEntrepreneur :: "app \<Rightarrow> bool" where
  "isEntrepreneur s = js_gt (totalRevenue s) (Num 0)"

subsection \<open>Adding and deleting\<close>




subsection \<open>The equity history\<close>

text \<open>
  What \<^verbatim>\<open>fetchFromYahoo\<close> and \<^verbatim>\<open>fetchViaProxy\<close> return: the timestamps (Unix seconds) and
  the parallel closing prices, \<open>None\<close> for a price that is \<^verbatim>\<open>null\<close>.
\<close>

record stockData =
  timestamps :: "int list"
  prices :: "jsnum option list"

text \<open>
  \<^verbatim>\<open>prices[i]\<close>: reading past the end gives \<^verbatim>\<open>undefined\<close>, which the code treats like
  \<^verbatim>\<open>null\<close> (both are falsy), so \<open>None\<close> stands for either.
\<close>

definition priceAt :: "jsnum option list \<Rightarrow> nat \<Rightarrow> jsnum option" where
  "priceAt ps i = (if i < length ps then ps ! i else None)"

text \<open>The callback of \<^verbatim>\<open>timestamps.map\<close>.\<close>

definition historyPoint :: "jsnum option list \<Rightarrow> nat \<Rightarrow> int \<Rightarrow> point" where
  "historyPoint ps i ts =
     (let d = new_Date (ts * 1000);
          price = priceAt ps i;
          stockValue = (case price of
                          Some p \<Rightarrow> if truthy_num p then Some (js_mul shares p) else None
                        | None \<Rightarrow> None)
      in \<lparr>date = toLocaleDateString d,
          fullDate = d,
          stockValue = (case stockValue of
                          Some v \<Rightarrow> if truthy_num v then Some (Math_round v) else None
                        | None \<Rightarrow> None),
          alexRevenue = Num 0\<rparr>)"

definition history :: "stockData \<Rightarrow> point list" where
  "history d =
     filter (\<lambda>p. stockValue p \<noteq> None)
       (map (\<lambda>(i, ts). historyPoint (prices d) i ts) (enumerate 0 (timestamps d)))"

text \<open>\<^verbatim>\<open>prices[prices.length - 1]\<close>, which is \<^verbatim>\<open>undefined\<close> for an empty array.\<close>

definition lastPrice :: "jsnum option list \<Rightarrow> jsnum option" where
  "lastPrice ps = (if ps = [] then None else last ps)"

text \<open>
  The body of the \<^verbatim>\<open>while\<close> loop of the fallback: the point pushed for \<open>current\<close>.
  \<^verbatim>\<open>Math.pow\<close> is implementation-approximated (its result is not fixed by the language),
  so it is the parameter \<open>Math_pow\<close>.
\<close>

definition fallbackPoint :: "(jsnum \<Rightarrow> jsnum \<Rightarrow> jsnum) \<Rightarrow> jsdate \<Rightarrow> jsdate \<Rightarrow> point" where
  "fallbackPoint Math_pow startDateObj current =
     (let monthsElapsed = (getFullYear current - getFullYear startDateObj) * 12 +
                          (getMonth current - getMonth startDateObj);
          growthFactor = Math_pow (fl (1027 / 1000)) (Num (of_int monthsElapsed));
          stockValue = Math_round (js_mul INITIAL_INVESTMENT growthFactor)
      in \<lparr>date = toLocaleDateString current,
          fullDate = current,
          stockValue = Some stockValue,
          alexRevenue = Num 0\<rparr>)"

function monthsLoop ::
  "(jsnum \<Rightarrow> jsnum \<Rightarrow> jsnum) \<Rightarrow> jsdate \<Rightarrow> jsdate \<Rightarrow> jsdate \<Rightarrow> point list \<Rightarrow> point list" where
  "monthsLoop Math_pow startDateObj now current months =
     (if date_le current now
      then monthsLoop Math_pow startDateObj now (setMonth current (getMonth current + 1))
             (months @ [fallbackPoint Math_pow startDateObj current])
      else months)"
  by pat_completeness auto
termination
proof (relation "measures
    [\<lambda>(p, s, n, c, ms). if 0 \<le> month c \<and> month c < 12 then 0 else 1,
     \<lambda>(p, s, n, c, ms). nat (12 * year n + 12 - (12 * year c + month c))]")
  show "wf (measures
    [\<lambda>(p, s, n, c, ms). if 0 \<le> month c \<and> month c < 12 then 0 else 1,
     \<lambda>(p :: jsnum \<Rightarrow> jsnum \<Rightarrow> jsnum, s :: jsdate, n, c, ms :: point list).
        nat (12 * year n + 12 - (12 * year c + month c))])"
    by simp
next
  fix Math_pow :: "jsnum \<Rightarrow> jsnum \<Rightarrow> jsnum"
  fix startDateObj now current :: jsdate and months :: "point list"
  assume le: "date_le current now"
  have y: "year current \<le> year now"
    using le by (auto simp: date_le_def)
  have m: "12 * ((month current + 1) div 12) + (month current + 1) mod 12 = month current + 1"
    by simp
  show "((Math_pow, startDateObj, now, setMonth current (getMonth current + 1),
          months @ [fallbackPoint Math_pow startDateObj current]),
         (Math_pow, startDateObj, now, current, months)) \<in> measures
    [\<lambda>(p, s, n, c, ms). if 0 \<le> month c \<and> month c < 12 then 0 else 1,
     \<lambda>(p, s, n, c, ms). nat (12 * year n + 12 - (12 * year c + month c))]"
    using y m by (auto simp: setMonth_def getMonth_def)
qed

text \<open>
  \<^verbatim>\<open>fetchGoogleStock\<close>. \<open>yahoo\<close> and \<open>proxy\<close> are what the two requests give, \<open>None\<close> for one
  that raised (a failed request, a status that is not ok, a body without the chart); \<open>now\<close>
  is \<^verbatim>\<open>new Date()\<close>. The proxy is asked only when the direct request raised. A body whose
  arrays are missing makes the code raise after the requests and take the fallback, which
  is what the model does when both are \<open>None\<close>.
\<close>

definition fetchGoogleStock ::
  "(jsnum \<Rightarrow> jsnum \<Rightarrow> jsnum) \<Rightarrow> stockData option \<Rightarrow> stockData option \<Rightarrow> jsdate \<Rightarrow> app \<Rightarrow> app" where
  "fetchGoogleStock Math_pow yahoo proxy now s =
     (case (case yahoo of Some d \<Rightarrow> Some d | None \<Rightarrow> proxy) of
        Some stockData \<Rightarrow>
          s\<lparr>error := None,
            googleHistory := history stockData,
            googlePrice := lastPrice (prices stockData),
            loading := False\<rparr>
      | None \<Rightarrow>
          s\<lparr>googlePrice := Some (Num 197),
            error := Some (js ''Could not fetch live data. Using estimated values.''),
            googleHistory := monthsLoop Math_pow START_DATE now START_DATE [],
            loading := False\<rparr>)"

section \<open>Instances of the runtime functions\<close>

text \<open>
  The format of the locale \<^verbatim>\<open>en-US\<close> for an integer: a minus sign for a negative one, and
  the digits in groups of three.
\<close>

fun digitsOf :: "nat \<Rightarrow> jsstring" where
  "digitsOf n = (if n < 10 then [48 + n] else digitsOf (n div 10) @ [48 + n mod 10])"

fun groupRev :: "jsstring \<Rightarrow> jsstring" where
  "groupRev (a # b # c # d # r) = a # b # c # 44 # groupRev (d # r)"
| "groupRev r = r"

definition enUS_integer :: "int \<Rightarrow> jsstring" where
  "enUS_integer n =
     (if n < 0 then js ''-'' else []) @ rev (groupRev (rev (digitsOf (nat \<bar>n\<bar>))))"

text \<open>
  \<^verbatim>\<open>toLocaleString()\<close> in a runtime whose locale is \<^verbatim>\<open>en-US\<close>, for the Numbers whose text is
  that of an integer: the integers up to \<open>2 ^ 53 - 1\<close> in magnitude and negative zero; also
  \<open>NaN\<close> and the infinities. \<open>None\<close> is a Number this definition does not cover.
\<close>

definition toLocaleString_enUS :: "jsnum \<Rightarrow> jsstring option" where
  "toLocaleString_enUS a =
     (case a of
        NaN \<Rightarrow> Some (js ''NaN'')
      | PosInf \<Rightarrow> Some [0x221E]
      | NegInf \<Rightarrow> Some [45, 0x221E]
      | NegZero \<Rightarrow> Some (js ''-0'')
      | Num r \<Rightarrow>
          if r = of_int \<lfloor>r\<rfloor> \<and> \<bar>r\<bar> \<le> 9007199254740991 then Some (enUS_integer \<lfloor>r\<rfloor>)
          else None)"

text \<open>
  A formatter that prints what \<open>toLocaleString_enUS\<close> gives, and nothing for a Number
  that it does not cover. The statements that use it apply it to covered Numbers only.
\<close>

definition formatter_enUS :: "jsnum \<Rightarrow> jsstring" where
  "formatter_enUS a = (case toLocaleString_enUS a of Some t \<Rightarrow> t | None \<Rightarrow> [])"

text \<open>
  A power function as a runtime may have it, for a finite base and an exponent that is a
  natural number: the double nearest to the exact power.
\<close>

definition pow_nearest :: "jsnum \<Rightarrow> jsnum \<Rightarrow> jsnum" where
  "pow_nearest b n = fl (val b ^ nat \<lfloor>val n\<rfloor>)"

section \<open>Notions the properties are stated with\<close>

text \<open>
  The numeric value of a revenue field: the Number that \<^verbatim>\<open>parseFloat\<close> reads from it, and
  0 for a field from which it reads no number (or a zero).
\<close>

definition numericValue :: "jsval \<Rightarrow> jsnum" where
  "numericValue x =
     (if parseFloat x = NaN \<or> parseFloat x = NegZero then Num 0 else parseFloat x)"

text \<open>The sum of a list of Numbers, added one after the other to 0, in the order of the list.\<close>

definition sumNumbers :: "jsnum list \<Rightarrow> jsnum" where
  "sumNumbers xs = foldl js_add (Num 0) xs"


text \<open>The indices of the fetched series whose point is in the produced history.\<close>

definition sourceIndices :: "stockData \<Rightarrow> nat list" where
  "sourceIndices d =
     filter (\<lambda>i. stockValue (historyPoint (prices d) i (timestamps d ! i)) \<noteq> None)
       [0..<length (timestamps d)]"


text \<open>
  A store that is empty, or holds a text whose values are written back as they were read
  (every text that \<open>save\<close> writes is one).
\<close>

definition wellFormed :: "storage \<Rightarrow> bool" where
  "wellFormed saved = (case saved of None \<Rightarrow> True | Some vs \<Rightarrow> persistable vs)"

declare bitLength.simps [simp del]
declare digitsOf.simps [simp del]
declare monthsLoop.simps [simp del]

section \<open>Evaluating the arithmetic\<close>

lemma floor_rat_numeral_div [simp]:
  "\<lfloor>numeral a / numeral b :: rat\<rfloor> = numeral a div numeral b"
  by (metis floor_divide_of_int_eq of_int_numeral)

lemma floor_rat_minus_numeral_div [simp]:
  "\<lfloor>- (numeral a / numeral b) :: rat\<rfloor> = - numeral a div numeral b"
  by (metis divide_minus_left floor_divide_of_int_eq of_int_neg_numeral of_int_numeral)

lemma floor_rat_one_div [simp]: "\<lfloor>1 / numeral b :: rat\<rfloor> = 1 div numeral b"
  by (metis floor_divide_of_int_eq of_int_numeral of_int_1)

lemma ceiling_rat_numeral_div [simp]:
  "\<lceil>numeral a / numeral b :: rat\<rceil> = - (- numeral a div numeral b)"
  by (metis ceiling_def floor_rat_minus_numeral_div)

lemma ceiling_rat_one_div [simp]: "\<lceil>1 / numeral b :: rat\<rceil> = - (- 1 div numeral b)"
  by (metis ceiling_def divide_minus_left floor_divide_of_int_eq of_int_minus of_int_numeral
      of_int_1)

lemmas fl_eval = fl_def quantum_def ilog2_def pow2_def roundHalfEven_def signedZero_def
  signedInf_def bitLength.simps

lemmas arith_eval = js_add_def js_sub_def js_mul_def js_div_def isInf_def isZero_def
  js_le_def js_lt_def js_ge_def js_gt_def

lemmas parse_eval = parseFloat_string_def decimalValue_def exponentPart_def pow10_def
  digitsValue_def isDigit_def isWhiteSpace_def js_def

lemmas enUS_eval = formatter_enUS_def toLocaleString_enUS_def enUS_integer_def digitsOf.simps
  js_def

section \<open>The store initializer\<close>

lemma find_None_filter: "find P xs = None \<longleftrightarrow> filter P xs = []"
  by (induction xs) auto

text \<open>
  Claim C1. When the persisted list has no record with the crypto discriminator, the loaded
  list is the persisted list followed by one crypto record, the only one of the result; its
  revenue is 0 and its expenses the fixed string \<^verbatim>\<open>$1,000\<close>. When nothing is persisted, the
  loaded list is the seed list, which has exactly one crypto record.
\<close>

theorem load_exactly_one_crypto:
  "(cryptoRecords parsed = [] \<longrightarrow>
      load (Some parsed) = parsed @ [bitcoinVenture] \<and>
      cryptoRecords (load (Some parsed)) = [bitcoinVenture] \<and>
      length (cryptoRecords (load (Some parsed))) = 1 \<and>
      revenue bitcoinVenture = Number (Num 0) \<and>
      expenses bitcoinVenture = Str (js ''$1,000'') \<and>
      truthy (isBitcoin bitcoinVenture)) \<and>
   load None = initialVentures \<and>
   length (cryptoRecords initialVentures) = 1"
proof -
  have seed: "length (cryptoRecords initialVentures) = 1"
    by (simp add: cryptoRecords_def initialVentures_def)
  have btc: "truthy (isBitcoin bitcoinVenture)"
    by (simp add: bitcoinVenture_def)
  have mig: "load (Some parsed) = parsed @ [bitcoinVenture]" if "cryptoRecords parsed = []"
    using that by (simp add: load_def find_None_filter cryptoRecords_def)
  have one: "cryptoRecords (parsed @ [bitcoinVenture]) = [bitcoinVenture]"
    if "cryptoRecords parsed = []"
    using that btc by (simp add: cryptoRecords_def)
  show ?thesis
    using seed btc mig one by (simp add: load_def bitcoinVenture_def)
qed

theorem load_exactly_one_crypto_witness:
  "cryptoRecords [\<lparr>id = Number (Num 1), name = Str (js ''Cart''), revenue = Number (Num 0),
       expenses = Str (js ''Time wasted''), isBitcoin = Undefined\<rparr>] = [] \<and>
   load (Some [\<lparr>id = Number (Num 1), name = Str (js ''Cart''), revenue = Number (Num 0),
       expenses = Str (js ''Time wasted''), isBitcoin = Undefined\<rparr>]) =
     [\<lparr>id = Number (Num 1), name = Str (js ''Cart''), revenue = Number (Num 0),
       expenses = Str (js ''Time wasted''), isBitcoin = Undefined\<rparr>, bitcoinVenture]"
  using load_exactly_one_crypto
    [of "[\<lparr>id = Number (Num 1), name = Str (js ''Cart''), revenue = Number (Num 0),
       expenses = Str (js ''Time wasted''), isBitcoin = Undefined\<rparr>]"]
  by (simp add: cryptoRecords_def)

section \<open>The crypto revenue\<close>

lemma cryptoRecords_update:
  "cryptoRecords (map (\<lambda>v. if truthy (isBitcoin v) then v\<lparr>revenue := x\<rparr> else v) vs) =
     map (\<lambda>v. v\<lparr>revenue := x\<rparr>) (cryptoRecords vs)"
  by (induction vs) (auto simp: cryptoRecords_def)

lemma profit_900: "Math_round (js_sub (Num 900) (Num 1000)) = Num (- 100)"
  by (simp add: arith_eval fl_eval)

lemma profit_1200: "Math_round (js_sub (Num 1200) (Num 1000)) = Num 200"
  by (simp add: arith_eval fl_eval)

lemma profit_99975: "Math_round (js_sub (Num (3999 / 4)) (Num 1000)) = NegZero"
  by (simp add: arith_eval fl_eval)

lemma display_crypto:
  "truthy (isBitcoin c) \<Longrightarrow>
     getBitcoinRevenueDisplay fmt (s\<lparr>bitcoinValue := Some v\<rparr>) c =
       (if js_ge (Math_round (js_sub v (Num 1000))) (Num 0) then js ''+'' else []) @ js ''$'' @
       fmt (Math_round (js_sub v (Num 1000)))"
  by (simp add: getBitcoinRevenueDisplay_def BTC_INVESTMENT_def Let_def)

text \<open>
  With a snapshot of 900 the display of the crypto row in the locale \<^verbatim>\<open>en-US\<close> is \<^verbatim>\<open>$-100\<close>:
  the template puts the prefix, then the dollar sign, then the number with its own minus
  sign.
\<close>

theorem crypto_display_counterexample:
  "getBitcoinRevenueDisplay formatter_enUS ((init None)\<lparr>bitcoinValue := Some (Num 900)\<rparr>)
     bitcoinVenture = js ''$-100'' \<and>
   getBitcoinRevenueDisplay formatter_enUS ((init None)\<lparr>bitcoinValue := Some (Num 900)\<rparr>)
     bitcoinVenture \<noteq> js ''-$100''"
proof -
  have t: "truthy (isBitcoin bitcoinVenture)"
    by (simp add: bitcoinVenture_def)
  have f: "formatter_enUS (Num (- 100)) = js ''-100''"
    by (simp add: enUS_eval)
  have "getBitcoinRevenueDisplay formatter_enUS ((init None)\<lparr>bitcoinValue := Some (Num 900)\<rparr>)
     bitcoinVenture = js ''$-100''"
    by (simp add: display_crypto [OF t] profit_900 f js_ge_def js_le_def) (simp add: js_def)
  moreover have "js ''$-100'' \<noteq> js ''-$100''"
    by (simp add: js_def)
  ultimately show ?thesis by simp
qed

text \<open>
  Claim C2, as the code has it. When the crypto value is set to \<open>v\<close>, the effect writes
  \<open>Math.round(v - 1000)\<close> into the revenue of every crypto record (and there are as many as
  before), and the display of a crypto row is the prefix, \<^verbatim>\<open>+\<close> exactly when that profit is
  \<^verbatim>\<open>>= 0\<close>, then \<^verbatim>\<open>$\<close>, then the profit as the locale prints it. For 900 the revenue is
  -100 and the display, where the locale prints -100 as \<^verbatim>\<open>-100\<close>, is \<^verbatim>\<open>$-100\<close>, without
  \<^verbatim>\<open>+\<close>; for 1200 the revenue is 200 and the display, where the locale prints 200 as
  \<^verbatim>\<open>200\<close>, is \<^verbatim>\<open>+$200\<close>. For 999.75 the revenue is negative zero, which is \<^verbatim>\<open>>= 0\<close>: the
  display has the prefix \<^verbatim>\<open>+\<close>.
\<close>

theorem crypto_revenue_and_display:
  "(\<forall>c \<in> set (cryptoRecords (ventures (updateBitcoinVenture (s\<lparr>bitcoinValue := Some v\<rparr>)))).
      revenue c = Number (Math_round (js_sub v (Num 1000)))) \<and>
   length (cryptoRecords (ventures (updateBitcoinVenture (s\<lparr>bitcoinValue := Some v\<rparr>)))) =
     length (cryptoRecords (ventures s)) \<and>
   (truthy (isBitcoin c) \<longrightarrow>
      getBitcoinRevenueDisplay fmt (s\<lparr>bitcoinValue := Some v\<rparr>) c =
        (if js_ge (Math_round (js_sub v (Num 1000))) (Num 0) then js ''+'' else []) @ js ''$'' @
        fmt (Math_round (js_sub v (Num 1000)))) \<and>
   Math_round (js_sub (Num 900) (Num 1000)) = Num (- 100) \<and>
   (truthy (isBitcoin c) \<and> fmt (Num (- 100)) = js ''-100'' \<longrightarrow>
      getBitcoinRevenueDisplay fmt (s\<lparr>bitcoinValue := Some (Num 900)\<rparr>) c = js ''$-100'') \<and>
   Math_round (js_sub (Num 1200) (Num 1000)) = Num 200 \<and>
   (truthy (isBitcoin c) \<and> fmt (Num 200) = js ''200'' \<longrightarrow>
      getBitcoinRevenueDisplay fmt (s\<lparr>bitcoinValue := Some (Num 1200)\<rparr>) c = js ''+$200'') \<and>
   Math_round (js_sub (Num (3999 / 4)) (Num 1000)) = NegZero \<and>
   (truthy (isBitcoin c) \<longrightarrow>
      getBitcoinRevenueDisplay fmt (s\<lparr>bitcoinValue := Some (Num (3999 / 4))\<rparr>) c =
        js ''+$'' @ fmt NegZero)"
proof -
  have rev: "\<forall>c \<in> set (cryptoRecords (ventures (updateBitcoinVenture (s\<lparr>bitcoinValue := Some v\<rparr>)))).
            revenue c = Number (Math_round (js_sub v (Num 1000)))"
    by (auto simp: updateBitcoinVenture_def cryptoRecords_update BTC_INVESTMENT_def)
  have len: "length (cryptoRecords (ventures (updateBitcoinVenture (s\<lparr>bitcoinValue := Some v\<rparr>)))) =
           length (cryptoRecords (ventures s))"
    by (simp add: updateBitcoinVenture_def cryptoRecords_update)
  have e900: "getBitcoinRevenueDisplay fmt (s\<lparr>bitcoinValue := Some (Num 900)\<rparr>) c = js ''$-100''"
    if "truthy (isBitcoin c)" "fmt (Num (- 100)) = js ''-100''"
    using that by (simp add: display_crypto profit_900 js_ge_def js_le_def) (simp add: js_def)
  have e1200: "getBitcoinRevenueDisplay fmt (s\<lparr>bitcoinValue := Some (Num 1200)\<rparr>) c = js ''+$200''"
    if "truthy (isBitcoin c)" "fmt (Num 200) = js ''200''"
    using that by (simp add: display_crypto profit_1200 js_ge_def js_le_def) (simp add: js_def)
  have ez: "getBitcoinRevenueDisplay fmt (s\<lparr>bitcoinValue := Some (Num (3999 / 4))\<rparr>) c =
        js ''+$'' @ fmt NegZero"
    if "truthy (isBitcoin c)"
    using that by (simp add: display_crypto profit_99975 js_ge_def js_le_def) (simp add: js_def)
  show ?thesis
    using rev len display_crypto [where c = c and fmt = fmt and s = s and v = v] e900 e1200 ez profit_900 profit_1200 profit_99975
    by blast
qed

theorem crypto_revenue_and_display_witness:
  "truthy (isBitcoin bitcoinVenture) \<and>
   formatter_enUS (Num (- 100)) = js ''-100'' \<and>
   formatter_enUS (Num 200) = js ''200'' \<and>
   formatter_enUS NegZero = js ''-0'' \<and>
   getBitcoinRevenueDisplay formatter_enUS ((init None)\<lparr>bitcoinValue := Some (Num 900)\<rparr>)
     bitcoinVenture = js ''$-100'' \<and>
   getBitcoinRevenueDisplay formatter_enUS ((init None)\<lparr>bitcoinValue := Some (Num 1200)\<rparr>)
     bitcoinVenture = js ''+$200'' \<and>
   getBitcoinRevenueDisplay formatter_enUS ((init None)\<lparr>bitcoinValue := Some (Num (3999 / 4))\<rparr>)
     bitcoinVenture = js ''+$-0'' \<and>
   map revenue (cryptoRecords (ventures (updateBitcoinVenture
     ((init None)\<lparr>bitcoinValue := Some (Num 900)\<rparr>)))) = [Number (Num (- 100))]"
proof -
  let ?s = "(init None)\<lparr>bitcoinValue := Some (Num 900)\<rparr>"
  have t: "truthy (isBitcoin bitcoinVenture)"
    by (simp add: bitcoinVenture_def)
  have f1: "formatter_enUS (Num (- 100)) = js ''-100''"
    and f2: "formatter_enUS (Num 200) = js ''200''"
    and f3: "formatter_enUS NegZero = js ''-0''"
    by (simp_all add: enUS_eval)
  have l: "length (cryptoRecords (ventures (init None))) = 1"
    by (simp add: init_def load_def initialVentures_def cryptoRecords_def)
  note th = crypto_revenue_and_display
    [where s = "init None" and v = "Num 900" and c = bitcoinVenture and fmt = formatter_enUS]
  from th l have "length (cryptoRecords (ventures (updateBitcoinVenture ?s))) = 1"
    by simp
  then obtain x where x: "cryptoRecords (ventures (updateBitcoinVenture ?s)) = [x]"
    by (cases "cryptoRecords (ventures (updateBitcoinVenture ?s))") auto
  with th have "revenue x = Number (Num (- 100))"
    by (simp add: profit_900)
  with x have r: "map revenue (cryptoRecords (ventures (updateBitcoinVenture ?s))) =
      [Number (Num (- 100))]"
    by simp
  have d1: "getBitcoinRevenueDisplay formatter_enUS ?s bitcoinVenture = js ''$-100''"
    using th t f1 by blast
  have d2: "getBitcoinRevenueDisplay formatter_enUS
      ((init None)\<lparr>bitcoinValue := Some (Num 1200)\<rparr>) bitcoinVenture = js ''+$200''"
    using th t f2 by blast
  have "getBitcoinRevenueDisplay formatter_enUS
      ((init None)\<lparr>bitcoinValue := Some (Num (3999 / 4))\<rparr>) bitcoinVenture =
        js ''+$'' @ formatter_enUS NegZero"
    using th t by blast
  then have d3: "getBitcoinRevenueDisplay formatter_enUS
      ((init None)\<lparr>bitcoinValue := Some (Num (3999 / 4))\<rparr>) bitcoinVenture = js ''+$-0''"
    by (simp add: f3) (simp add: js_def)
  show ?thesis using t f1 f2 f3 d1 d2 d3 r by blast
qed

text \<open>
  Claim C10. The effect keeps the length and the order of the list; a record without the
  crypto discriminator is left as it is, a crypto record changes in its revenue only (id,
  name, expenses and the discriminator are kept), and no other part of the state changes.
\<close>

theorem updateBitcoinVenture_frame:
  "length (ventures (updateBitcoinVenture s)) = length (ventures s) \<and>
   (\<forall>i < length (ventures s).
      (\<not> truthy (isBitcoin (ventures s ! i)) \<longrightarrow>
         ventures (updateBitcoinVenture s) ! i = ventures s ! i) \<and>
      (truthy (isBitcoin (ventures s ! i)) \<longrightarrow>
         id (ventures (updateBitcoinVenture s) ! i) = id (ventures s ! i) \<and>
         name (ventures (updateBitcoinVenture s) ! i) = name (ventures s ! i) \<and>
         expenses (ventures (updateBitcoinVenture s) ! i) = expenses (ventures s ! i) \<and>
         isBitcoin (ventures (updateBitcoinVenture s) ! i) = isBitcoin (ventures s ! i) \<and>
         ventures (updateBitcoinVenture s) ! i =
           (ventures s ! i)\<lparr>revenue := revenue (ventures (updateBitcoinVenture s) ! i)\<rparr>)) \<and>
   updateBitcoinVenture s = s\<lparr>ventures := ventures (updateBitcoinVenture s)\<rparr>"
  by (cases "bitcoinValue s") (simp_all add: updateBitcoinVenture_def)

theorem updateBitcoinVenture_frame_witness:
  "ventures (updateBitcoinVenture ((init None)\<lparr>bitcoinValue := Some (Num 1200)\<rparr>)) ! 0 =
     initialVentures ! 0 \<and>
   truthy (isBitcoin (initialVentures ! 7)) \<and>
   name (ventures (updateBitcoinVenture ((init None)\<lparr>bitcoinValue := Some (Num 1200)\<rparr>)) ! 7) =
     Str (js ''Bitcoin Investor'')"
proof -
  let ?s = "(init None)\<lparr>bitcoinValue := Some (Num 1200)\<rparr>"
  have v: "ventures ?s = initialVentures"
    by (simp add: init_def load_def)
  have n: "length initialVentures = 8"
    by (simp add: initialVentures_def)
  have f0: "\<not> truthy (isBitcoin (initialVentures ! 0))"
    by (simp add: initialVentures_def)
  have t7: "truthy (isBitcoin (initialVentures ! 7))"
    by (simp add: initialVentures_def)
  have n7: "name (initialVentures ! 7) = Str (js ''Bitcoin Investor'')"
    by (simp add: initialVentures_def)
  note th = updateBitcoinVenture_frame [of ?s, unfolded v n]
  from th have all: "\<forall>i<8. (\<not> truthy (isBitcoin (initialVentures ! i)) \<longrightarrow>
         ventures (updateBitcoinVenture ?s) ! i = initialVentures ! i) \<and>
      (truthy (isBitcoin (initialVentures ! i)) \<longrightarrow>
         name (ventures (updateBitcoinVenture ?s) ! i) = name (initialVentures ! i))"
    by blast
  have a0: "ventures (updateBitcoinVenture ?s) ! 0 = initialVentures ! 0"
    using all f0 by auto
  have a7: "name (ventures (updateBitcoinVenture ?s) ! 7) = Str (js ''Bitcoin Investor'')"
    using all t7 n7 by auto
  show ?thesis using a0 t7 a7 by blast
qed

section \<open>Deleting\<close>





section \<open>The total revenue\<close>

lemma or_zero_numericValue: "or_zero (parseFloat x) = numericValue x"
  by (cases "parseFloat x") (auto simp: or_zero_def numericValue_def)

lemma foldl_revenue:
  "foldl (\<lambda>sum v. js_add sum (or_zero (parseFloat (revenue v)))) a vs =
     foldl js_add a (map (\<lambda>v. numericValue (revenue v)) vs)"
  by (induction vs arbitrary: a) (simp_all add: or_zero_numericValue)

lemma foldl_add_zeros: "\<forall>x \<in> set xs. x = Num 0 \<Longrightarrow> foldl js_add (Num 0) xs = Num 0"
  by (induction xs) (auto simp: js_add_def isInf_def)

lemma parse_12_5: "parseFloat_string (js ''12.5'') = Num (25 / 2)"
  by (simp add: parse_eval fl_eval)

lemma parse_abc: "parseFloat_string (js ''abc'') = NaN"
  by (simp add: parse_eval)

lemma parse_empty: "parseFloat_string [] = NaN"
  by (simp add: parse_eval)

lemma parse_Infinity: "parseFloat_string (js ''Infinity'') = PosInf"
  by (simp add: parse_eval signedInf_def)

text \<open>
  Claim C4. The total is the sum of the numeric values of the revenue fields, added in the
  order of the list with the addition of Numbers. A revenue that is absent, \<^verbatim>\<open>null\<close>, a
  boolean, \<open>NaN\<close> or a string without a leading number counts 0, and one that holds a
  number counts that number (12.5 for the text \<^verbatim>\<open>12.5\<close>, Infinity for \<^verbatim>\<open>Infinity\<close>). When every
  revenue counts 0, the total is 0 and \<^verbatim>\<open>isEntrepreneur\<close> is false.
\<close>

theorem totalRevenue_is_sum:
  "totalRevenue s = sumNumbers (map (\<lambda>v. numericValue (revenue v)) (ventures s)) \<and>
   numericValue Undefined = Num 0 \<and> numericValue Null = Num 0 \<and>
   numericValue (Bool b) = Num 0 \<and> numericValue (Number NaN) = Num 0 \<and>
   (n \<noteq> NaN \<and> n \<noteq> NegZero \<longrightarrow> numericValue (Number n) = n) \<and>
   (parseFloat_string t = NaN \<longrightarrow> numericValue (Str t) = Num 0) \<and>
   (parseFloat_string t \<noteq> NaN \<and> parseFloat_string t \<noteq> NegZero \<longrightarrow>
      numericValue (Str t) = parseFloat_string t) \<and>
   numericValue (Str (js ''abc'')) = Num 0 \<and>
   numericValue (Str (js ''12.5'')) = Num (25 / 2) \<and>
   numericValue (Str (js ''Infinity'')) = PosInf \<and>
   ((\<forall>v \<in> set (ventures s). numericValue (revenue v) = Num 0) \<longrightarrow>
      totalRevenue s = Num 0 \<and> \<not> isEntrepreneur s)"
proof -
  have tot: "totalRevenue s = sumNumbers (map (\<lambda>v. numericValue (revenue v)) (ventures s))"
    by (simp add: totalRevenue_def sumNumbers_def foldl_revenue)
  have zero: "totalRevenue s = Num 0 \<and> \<not> isEntrepreneur s"
    if "\<forall>v \<in> set (ventures s). numericValue (revenue v) = Num 0"
  proof -
    have "totalRevenue s = Num 0"
      unfolding tot sumNumbers_def using that by (intro foldl_add_zeros) simp
    then show ?thesis
      by (simp add: isEntrepreneur_def js_gt_def js_lt_def)
  qed
  have lit: "numericValue (Str (js ''abc'')) = Num 0"
    "numericValue (Str (js ''12.5'')) = Num (25 / 2)"
    "numericValue (Str (js ''Infinity'')) = PosInf"
    by (simp_all add: numericValue_def parse_abc parse_12_5 parse_Infinity)
  have gen: "numericValue Undefined = Num 0" "numericValue Null = Num 0"
    "numericValue (Bool b) = Num 0" "numericValue (Number NaN) = Num 0"
    "n \<noteq> NaN \<and> n \<noteq> NegZero \<longrightarrow> numericValue (Number n) = n"
    "parseFloat_string t = NaN \<longrightarrow> numericValue (Str t) = Num 0"
    "parseFloat_string t \<noteq> NaN \<and> parseFloat_string t \<noteq> NegZero \<longrightarrow>
      numericValue (Str t) = parseFloat_string t"
    by (simp_all add: numericValue_def)
  show ?thesis
    using tot zero lit gen by blast
qed

theorem totalRevenue_is_sum_witness:
  "map (\<lambda>v. numericValue (revenue v)) (ventures (init None)) =
     [Num 0, Num 0, Num 0, Num 0, Num 0, Num 0, Num 0, Num 0] \<and>
   totalRevenue (init None) = Num 0 \<and> \<not> isEntrepreneur (init None) \<and>
   totalRevenue ((init None)\<lparr>ventures :=
     [bitcoinVenture\<lparr>revenue := Str (js ''12.5'')\<rparr>, bitcoinVenture\<lparr>revenue := Number (Num 3)\<rparr>,
      bitcoinVenture\<lparr>revenue := Null\<rparr>, bitcoinVenture\<lparr>revenue := Str (js ''abc'')\<rparr>]\<rparr>) =
     Num (31 / 2) \<and>
   fl (1 / 10) = Num (3602879701896397 / 36028797018963968) \<and>
   fl (1 / 5) = Num (3602879701896397 / 18014398509481984) \<and>
   fl (- (3 / 10)) = Num (- (5404319552844595 / 18014398509481984)) \<and>
   totalRevenue ((init None)\<lparr>ventures :=
     [bitcoinVenture\<lparr>revenue := Number (Num (3602879701896397 / 36028797018963968))\<rparr>,
      bitcoinVenture\<lparr>revenue := Number (Num (3602879701896397 / 18014398509481984))\<rparr>,
      bitcoinVenture\<lparr>revenue := Number (Num (- (5404319552844595 / 18014398509481984)))\<rparr>]\<rparr>) =
     Num (1 / 2 ^ 54)"
proof -
  let ?a = "(init None)\<lparr>ventures :=
     [bitcoinVenture\<lparr>revenue := Str (js ''12.5'')\<rparr>, bitcoinVenture\<lparr>revenue := Number (Num 3)\<rparr>,
      bitcoinVenture\<lparr>revenue := Null\<rparr>, bitcoinVenture\<lparr>revenue := Str (js ''abc'')\<rparr>]\<rparr>"
  let ?b = "(init None)\<lparr>ventures :=
     [bitcoinVenture\<lparr>revenue := Number (Num (3602879701896397 / 36028797018963968))\<rparr>,
      bitcoinVenture\<lparr>revenue := Number (Num (3602879701896397 / 18014398509481984))\<rparr>,
      bitcoinVenture\<lparr>revenue := Number (Num (- (5404319552844595 / 18014398509481984)))\<rparr>]\<rparr>"
  have m: "map (\<lambda>v. numericValue (revenue v)) (ventures (init None)) =
     [Num 0, Num 0, Num 0, Num 0, Num 0, Num 0, Num 0, Num 0]"
    by (simp add: init_def load_def initialVentures_def numericValue_def)
  have z: "\<forall>v \<in> set (ventures (init None)). numericValue (revenue v) = Num 0"
    by (simp add: init_def load_def initialVentures_def numericValue_def)
  have t0: "totalRevenue (init None) = Num 0 \<and> \<not> isEntrepreneur (init None)"
    using totalRevenue_is_sum [where s = "init None"] z by blast
  have f1: "fl (1 / 10) = Num (3602879701896397 / 36028797018963968)"
    and f2: "fl (1 / 5) = Num (3602879701896397 / 18014398509481984)"
    and f3: "fl (- (3 / 10)) = Num (- (5404319552844595 / 18014398509481984))"
    by (simp_all add: fl_eval)
  have ma: "map (\<lambda>v. numericValue (revenue v)) (ventures ?a) =
      [Num (25 / 2), Num 3, Num 0, Num 0]"
    using totalRevenue_is_sum [where s = ?a and n = "Num 3"]
    by (simp add: bitcoinVenture_def)
  have ta: "totalRevenue ?a = Num (31 / 2)"
    using totalRevenue_is_sum [where s = ?a] unfolding ma
    by (simp add: sumNumbers_def js_add_def isInf_def fl_eval)
  have mb: "map (\<lambda>v. numericValue (revenue v)) (ventures ?b) =
      [Num (3602879701896397 / 36028797018963968), Num (3602879701896397 / 18014398509481984),
       Num (- (5404319552844595 / 18014398509481984))]"
    by (simp add: bitcoinVenture_def numericValue_def)
  have tb: "totalRevenue ?b = Num (1 / 2 ^ 54)"
    using totalRevenue_is_sum [where s = ?b] unfolding mb
    by (simp add: sumNumbers_def js_add_def isInf_def fl_eval)
  show ?thesis using m t0 ta tb f1 f2 f3 by blast
qed

section \<open>Adding\<close>




section \<open>Loading what was saved\<close>

lemma jsonVenture_bitcoinVenture: "jsonVenture bitcoinVenture = bitcoinVenture"
  by (simp add: jsonVenture_def bitcoinVenture_def)

lemma persistable_initialVentures: "persistable initialVentures"
  by (simp add: persistable_def initialVentures_def jsonVenture_def)

lemma persistable_load: "wellFormed saved \<Longrightarrow> persistable (load saved)"
  by (cases saved)
     (auto simp: wellFormed_def load_def persistable_initialVentures [unfolded persistable_def]
        persistable_def jsonVenture_bitcoinVenture)

lemma load_has_crypto: "find (\<lambda>v. truthy (isBitcoin v)) (load saved) \<noteq> None"
proof (cases saved)
  case None
  then show ?thesis
    by (simp add: load_def initialVentures_def)
next
  case (Some parsed)
  have "filter (\<lambda>v. truthy (isBitcoin v)) (parsed @ [bitcoinVenture]) \<noteq> []"
    by (simp add: bitcoinVenture_def)
  then show ?thesis
    using Some by (simp add: load_def find_None_filter del: filter_append)
qed

lemma jsonValue_idem: "jsonValue (jsonValue v) = jsonValue v"
  by (cases v) auto

lemma wellFormed_save: "wellFormed (save vs)"
  by (simp add: wellFormed_def save_def persistable_def jsonVenture_def jsonValue_idem)

text \<open>
  A stored text in which the discriminator of the only record is the literal \<^verbatim>\<open>1e999\<close>
  parses to Infinity, which is truthy: the first load appends nothing. Saving writes
  Infinity as \<^verbatim>\<open>null\<close>, so the second load finds no crypto record and appends one: the two
  loaded lists differ.
\<close>

theorem load_not_idempotent_counterexample:
  "load (Some [\<lparr>id = Number (Num 1), name = Str (js ''Cart''), revenue = Number (Num 0),
       expenses = Str (js ''Time wasted''), isBitcoin = Number PosInf\<rparr>]) =
     [\<lparr>id = Number (Num 1), name = Str (js ''Cart''), revenue = Number (Num 0),
       expenses = Str (js ''Time wasted''), isBitcoin = Number PosInf\<rparr>] \<and>
   load (save (load (Some [\<lparr>id = Number (Num 1), name = Str (js ''Cart''),
       revenue = Number (Num 0), expenses = Str (js ''Time wasted''),
       isBitcoin = Number PosInf\<rparr>]))) =
     [\<lparr>id = Number (Num 1), name = Str (js ''Cart''), revenue = Number (Num 0),
       expenses = Str (js ''Time wasted''), isBitcoin = Null\<rparr>, bitcoinVenture] \<and>
   load (save (load (Some [\<lparr>id = Number (Num 1), name = Str (js ''Cart''),
       revenue = Number (Num 0), expenses = Str (js ''Time wasted''),
       isBitcoin = Number PosInf\<rparr>]))) \<noteq>
   load (Some [\<lparr>id = Number (Num 1), name = Str (js ''Cart''), revenue = Number (Num 0),
       expenses = Str (js ''Time wasted''), isBitcoin = Number PosInf\<rparr>])"
  by (simp add: load_def save_def jsonVenture_def)

text \<open>
  Claim C8, as the code has it. The empty store and every store that \<open>save\<close> has written
  are well formed. For a well-formed store, saving the loaded list writes that list, and
  loading it again gives the same list: the second load finds the crypto record and
  appends nothing.
\<close>

theorem load_idempotent:
  "wellFormed None \<and> wellFormed (save vs) \<and>
   (wellFormed saved \<longrightarrow>
      save (load saved) = Some (load saved) \<and> load (save (load saved)) = load saved)"
proof -
  have s: "save (load saved) = Some (load saved)" if "wellFormed saved"
    using persistable_load [OF that] by (simp add: save_def persistable_def)
  have l: "load (Some (load saved)) = load saved"
    using load_has_crypto [of saved] by (simp add: load_def [of "Some (load saved)"])
  have n: "wellFormed None"
    by (simp add: wellFormed_def)
  show ?thesis
    using s l n wellFormed_save by simp
qed

theorem load_idempotent_witness:
  "wellFormed (Some [\<lparr>id = Number (Num 1), name = Str (js ''Cart''), revenue = Number (Num 0),
       expenses = Str (js ''Time wasted''), isBitcoin = Undefined\<rparr>]) \<and>
   load (save (load (Some [\<lparr>id = Number (Num 1), name = Str (js ''Cart''), revenue = Number (Num 0),
       expenses = Str (js ''Time wasted''), isBitcoin = Undefined\<rparr>]))) =
     [\<lparr>id = Number (Num 1), name = Str (js ''Cart''), revenue = Number (Num 0),
       expenses = Str (js ''Time wasted''), isBitcoin = Undefined\<rparr>, bitcoinVenture]"
proof -
  let ?st = "Some [\<lparr>id = Number (Num 1), name = Str (js ''Cart''), revenue = Number (Num 0),
       expenses = Str (js ''Time wasted''), isBitcoin = Undefined\<rparr>]"
  have w: "wellFormed ?st"
    by (simp add: wellFormed_def persistable_def jsonVenture_def)
  have l: "load ?st = [\<lparr>id = Number (Num 1), name = Str (js ''Cart''), revenue = Number (Num 0),
       expenses = Str (js ''Time wasted''), isBitcoin = Undefined\<rparr>, bitcoinVenture]"
    by (simp add: load_def)
  have i: "load (save (load ?st)) = load ?st"
    using load_idempotent [where saved = ?st] w by blast
  show ?thesis
    using w i l by simp
qed

section \<open>The value of the shares\<close>

lemma shares_value: "shares = Num (7833546051170433 / 70368744177664)"
  by (simp add: shares_def INITIAL_INVESTMENT_def GOOGLE_START_PRICE_def js_div_def isInf_def
      isZero_def fl_eval)

lemma shares_mul_100: "js_mul shares (Num 100) = Num (6119957852476901 / 549755813888)"
  by (simp add: shares_value js_mul_def isInf_def isZero_def fl_eval)

lemma shares_times_100: "Math_round (js_mul shares (Num 100)) = Num 11132"
  by (simp add: shares_mul_100)

lemma gain_at_100: "js_sub (Num 11132) INITIAL_INVESTMENT = Num 1132"
  by (simp add: INITIAL_INVESTMENT_def js_sub_def js_add_def isInf_def fl_eval)

text \<open>
  With a latest price of 100 the value of the shares is not 11135 and the gain not 1135:
  10000 / 89.83 is 111.32..., so the value is 11132.
\<close>

theorem stock_value_counterexample:
  "currentStockValue
     (fetchGoogleStock pow_nearest (Some \<lparr>timestamps = [1672704000], prices = [Some (Num 100)]\<rparr>)
        None START_DATE (init None)) \<noteq> Some (Num 11135) \<and>
   stockGain
     (fetchGoogleStock pow_nearest (Some \<lparr>timestamps = [1672704000], prices = [Some (Num 100)]\<rparr>)
        None START_DATE (init None)) \<noteq> Some (Num 1135)"
  by (simp add: fetchGoogleStock_def lastPrice_def currentStockValue_def stockGain_def
      shares_times_100 gain_at_100)

text \<open>
  Claim C7, as the code has it. After an equity fetch that succeeds (directly or through
  the proxy) with a latest price of 100, whatever the state before, \<^verbatim>\<open>googlePrice\<close> is 100,
  \<^verbatim>\<open>currentStockValue\<close> is \<open>round (10000 / 89.83 * 100) = 11132\<close> and \<^verbatim>\<open>stockGain\<close> is 1132.
\<close>

theorem stock_value_at_price_100:
  "lastPrice (prices d) = Some (Num 100) \<Longrightarrow>
     googlePrice (fetchGoogleStock pw (Some d) proxy now s) = Some (Num 100) \<and>
     currentStockValue (fetchGoogleStock pw (Some d) proxy now s) = Some (Num 11132) \<and>
     stockGain (fetchGoogleStock pw (Some d) proxy now s) = Some (Num 1132) \<and>
     googlePrice (fetchGoogleStock pw None (Some d) now s) = Some (Num 100) \<and>
     currentStockValue (fetchGoogleStock pw None (Some d) now s) = Some (Num 11132) \<and>
     stockGain (fetchGoogleStock pw None (Some d) now s) = Some (Num 1132)"
  by (simp add: fetchGoogleStock_def currentStockValue_def stockGain_def
      shares_times_100 gain_at_100)

theorem stock_value_at_price_100_witness:
  "lastPrice (prices \<lparr>timestamps = [1672704000], prices = [Some (Num 100)]\<rparr>) = Some (Num 100) \<and>
   currentStockValue
     (fetchGoogleStock pow_nearest (Some \<lparr>timestamps = [1672704000], prices = [Some (Num 100)]\<rparr>)
        None START_DATE (init None)) = Some (Num 11132)"
proof -
  have l: "lastPrice (prices \<lparr>timestamps = [1672704000], prices = [Some (Num 100)]\<rparr>) =
      Some (Num 100)"
    by (simp add: lastPrice_def)
  show ?thesis
    using stock_value_at_price_100 [OF l, of pow_nearest None START_DATE "init None"] l by blast
qed

section \<open>The fetched history\<close>

lemma enumerate_as_map: "enumerate 0 xs = map (\<lambda>i. (i, xs ! i)) [0..<length xs]"
  by (rule nth_equalityI) (simp_all add: nth_enumerate_eq)

lemma history_as_map:
  "history d =
     map (\<lambda>i. historyPoint (prices d) i (timestamps d ! i)) (sourceIndices d)"
  by (simp add: history_def sourceIndices_def enumerate_as_map filter_map comp_def)

lemma historyPoint_kept:
  "stockValue (historyPoint ps i ts) \<noteq> None \<Longrightarrow>
     \<exists>p. priceAt ps i = Some p \<and>
         stockValue (historyPoint ps i ts) = Some (Math_round (js_mul shares p))"
  by (auto simp: historyPoint_def Let_def split: option.splits if_splits)

lemma historyPoint_dropped:
  "priceAt ps i = None \<Longrightarrow> stockValue (historyPoint ps i ts) = None"
  by (simp add: historyPoint_def Let_def)

text \<open>
  Claim C6. The history of a fetched series holds, in the order of the series, the points
  of the indices kept. Every kept index has a price that is not \<^verbatim>\<open>null\<close>, and the value of its
  point is \<^verbatim>\<open>Math.round((10000 / 89.83) * price)\<close>, computed in doubles; an index whose price
  is \<^verbatim>\<open>null\<close>, or lies past the end of the prices, is not kept; no point of the history has
  the value \<^verbatim>\<open>null\<close>.
\<close>

theorem history_has_no_null:
  "googleHistory (fetchGoogleStock pw (Some d) proxy now s) = history d \<and>
   history d = map (\<lambda>i. historyPoint (prices d) i (timestamps d ! i)) (sourceIndices d) \<and>
   sorted_wrt (<) (sourceIndices d) \<and>
   (\<forall>i \<in> set (sourceIndices d). i < length (timestamps d) \<and>
      (\<exists>p. priceAt (prices d) i = Some p \<and>
           stockValue (historyPoint (prices d) i (timestamps d ! i)) =
             Some (Math_round (js_mul (js_div INITIAL_INVESTMENT GOOGLE_START_PRICE) p)))) \<and>
   (\<forall>i. priceAt (prices d) i = None \<longrightarrow> i \<notin> set (sourceIndices d)) \<and>
   (\<forall>i. length (prices d) \<le> i \<longrightarrow> i \<notin> set (sourceIndices d)) \<and>
   (\<forall>p \<in> set (history d). stockValue p \<noteq> None)"
proof -
  have f: "googleHistory (fetchGoogleStock pw (Some d) proxy now s) = history d"
    by (simp add: fetchGoogleStock_def)
  have srt: "sorted_wrt (<) (sourceIndices d)"
    by (simp add: sourceIndices_def sorted_wrt_filter)
  have kept: "\<forall>i \<in> set (sourceIndices d). i < length (timestamps d) \<and>
      (\<exists>p. priceAt (prices d) i = Some p \<and>
           stockValue (historyPoint (prices d) i (timestamps d ! i)) =
             Some (Math_round (js_mul (js_div INITIAL_INVESTMENT GOOGLE_START_PRICE) p)))"
    using historyPoint_kept by (auto simp: sourceIndices_def shares_def)
  have drop: "\<forall>i. priceAt (prices d) i = None \<longrightarrow> i \<notin> set (sourceIndices d)"
    by (simp add: sourceIndices_def historyPoint_dropped)
  have miss: "\<forall>i. length (prices d) \<le> i \<longrightarrow> i \<notin> set (sourceIndices d)"
    using drop by (simp add: priceAt_def)
  have nn: "\<forall>p \<in> set (history d). stockValue p \<noteq> None"
    by (simp add: history_def)
  show ?thesis
    using f history_as_map srt kept drop miss nn by blast
qed

lemma price_100_1020605: "fl (1001020605 / 10000000) = Num (880507035872693 / 8796093022208)"
  by (simp add: fl_eval)

lemma shares_mul_100_1020605:
  "js_mul shares (Num (880507035872693 / 8796093022208)) = Num (22287 / 2)"
  by (simp add: shares_value js_mul_def isInf_def isZero_def fl_eval)

lemma value_at_100_1020605:
  "Math_round (js_mul shares (Num (880507035872693 / 8796093022208))) = Num 11144"
  by (simp add: shares_mul_100_1020605)

theorem history_has_no_null_witness:
  "fl (1001020605 / 10000000) = Num (880507035872693 / 8796093022208) \<and>
   priceAt (prices \<lparr>timestamps = [1672704000, 1675382400, 1677801600, 1680480000],
      prices = [Some (Num 100), None, Some (Num (880507035872693 / 8796093022208))]\<rparr>) 1 = None \<and>
   sourceIndices \<lparr>timestamps = [1672704000, 1675382400, 1677801600, 1680480000],
      prices = [Some (Num 100), None, Some (Num (880507035872693 / 8796093022208))]\<rparr> = [0, 2] \<and>
   map stockValue (history \<lparr>timestamps = [1672704000, 1675382400, 1677801600, 1680480000],
      prices = [Some (Num 100), None, Some (Num (880507035872693 / 8796093022208))]\<rparr>) =
     [Some (Num 11132), Some (Num 11144)]"
proof -
  let ?d = "\<lparr>timestamps = [1672704000, 1675382400, 1677801600, 1680480000],
      prices = [Some (Num 100), None, Some (Num (880507035872693 / 8796093022208))]\<rparr>"
  have p1: "priceAt (prices ?d) 1 = None"
    by (simp add: priceAt_def)
  have k0: "stockValue (historyPoint (prices ?d) 0 (timestamps ?d ! 0)) = Some (Num 11132)"
    by (simp add: historyPoint_def priceAt_def Let_def shares_mul_100)
  have k2: "stockValue (historyPoint (prices ?d) 2 (timestamps ?d ! 2)) = Some (Num 11144)"
    by (simp add: historyPoint_def priceAt_def Let_def shares_mul_100_1020605)
  have si: "sourceIndices ?d = [0, 2]"
    by (simp add: sourceIndices_def historyPoint_def priceAt_def Let_def shares_mul_100
        shares_mul_100_1020605)
  note th = history_has_no_null [of pow_nearest ?d None START_DATE "init None"]
  have h: "history ?d = map (\<lambda>i. historyPoint (prices ?d) i (timestamps ?d ! i)) [0, 2]"
    using th si by simp
  have sv: "map stockValue (history ?d) = [Some (Num 11132), Some (Num 11144)]"
    using h k0 k2 by simp
  show ?thesis
    using price_100_1020605 p1 si sv by blast
qed

section \<open>The synthesized history\<close>





















end
